theory Spec2Isabelle
  imports Complex_Main "HOL-Library.Word"
begin

section \<open>The HE-Transformer notebook: command-line helpers\<close>

subsection \<open>Python values, strings and bytes\<close>

text \<open>
  A Python \<open>str\<close> is modelled as a \<^typ>\<open>string\<close>, a list of characters with code points
  below 256, and a Python \<open>bytes\<close> object as a list of such characters too. The two values
  \<open>str2bool\<close> distinguishes with \<open>isinstance(v, bool)\<close> are a \<open>bool\<close> (the default of the
  flag) and a \<open>str\<close> (what \<open>argparse\<close> hands to a \<open>type=\<close> function).
\<close>

type_synonym bytes = string

datatype pyval = PyBool bool | PyStr string

datatype exn = ArgumentTypeError string

text \<open>
  \<open>v.lower()\<close>: the letters \<open>A\<close> .. \<open>Z\<close> move to \<open>a\<close> .. \<open>z\<close>; every other
  character stays as it is. Python also lowers letters outside the ASCII range; none of
  them becomes a letter of the keywords below, so this changes no membership in the keyword
  tuples.
\<close>

definition lower_char :: "char \<Rightarrow> char" where
  "lower_char c =
     (case map_of (zip ''ABCDEFGHIJKLMNOPQRSTUVWXYZ'' ''abcdefghijklmnopqrstuvwxyz'') c of
        Some l \<Rightarrow> l
      | None \<Rightarrow> c)"

definition lower :: "string \<Rightarrow> string" where
  "lower v = map lower_char v"

text \<open>
  \<open>s.encode()\<close>: UTF-8. A code point below 128 is one byte, a code point from 128 to 255
  is the two bytes \<open>0xC0 + c div 64\<close> and \<open>0x80 + c mod 64\<close>.
\<close>

definition encode_char :: "char \<Rightarrow> bytes" where
  "encode_char c =
     (if (of_char c :: nat) < 128 then [c]
      else [char_of (192 + (of_char c :: nat) div 64), char_of (128 + (of_char c :: nat) mod 64)])"

definition encode :: "string \<Rightarrow> bytes" where
  "encode s = concat (map encode_char s)"

text \<open>\<open>str(b)\<close> of a \<open>bool\<close>.\<close>

definition str_of_bool :: "bool \<Rightarrow> string" where
  "str_of_bool b = (if b then ''True'' else ''False'')"

subsection \<open>\<open>str2bool\<close>\<close>

text \<open>
  \<^verbatim>\<open>
  def str2bool(v):
      if isinstance(v, bool):
          return v
      if v.lower() in ("on", "yes", "true", "t", "y", "1"):
          return True
      elif v.lower() in ("off", "no", "false", "f", "n", "0"):
          return False
      else:
          raise argparse.ArgumentTypeError("Boolean value expected.")
  \<close>
\<close>

fun str2bool :: "pyval \<Rightarrow> exn + bool" where
  "str2bool (PyBool v) = Inr v"
| "str2bool (PyStr v) =
     (if lower v \<in> set [''on'', ''yes'', ''true'', ''t'', ''y'', ''1''] then Inr True
      else if lower v \<in> set [''off'', ''no'', ''false'', ''f'', ''n'', ''0''] then Inr False
      else Inl (ArgumentTypeError ''Boolean value expected.''))"

subsection \<open>\<open>server_config_from_flags\<close>\<close>

text \<open>
  The parsed command line: the four flags the \<open>__main__\<close> block declares. \<open>enable_client\<close>
  is parsed by \<open>str2bool\<close> and defaults to \<open>False\<close>, so it is a \<open>bool\<close>.
\<close>

record FLAGS =
  batch_size :: int
  enable_client :: bool
  backend :: string
  encryption_parameters :: string

text \<open>
  The protocol-buffer messages the function fills. A message field that is a message is
  \<open>None\<close> while unset; \<open>parameter_map\<close> is a map from names to \<open>AttrValue\<close>s, of which the
  code sets the bytes field \<open>s\<close> only, so the map holds those bytes.
\<close>

datatype num_iterations = DEFAULT_NUM_ITERS | ONE | TWO

record custom_graph_optimizer =
  name :: string
  parameter_map :: "string \<rightharpoonup> bytes"

record rewriter_config =
  meta_optimizer_iterations :: num_iterations
  min_graph_nodes :: int
  custom_optimizers :: "custom_graph_optimizer list"

record graph_options =
  rewrite_options :: "rewriter_config option"

record config_proto =
  config_graph_options :: "graph_options option"

definition RewriterConfig :: rewriter_config where
  "RewriterConfig =
     \<lparr>meta_optimizer_iterations = DEFAULT_NUM_ITERS, min_graph_nodes = 0, custom_optimizers = []\<rparr>"

definition ConfigProto :: config_proto where
  "ConfigProto = \<lparr>config_graph_options = None\<rparr>"

text \<open>
  \<open>MergeFrom\<close>: a scalar field set in the source replaces the target's, a repeated field is
  appended, a message field is merged field by field, and copied when the target has none.
\<close>

definition merge_rewriter_config :: "rewriter_config \<Rightarrow> rewriter_config \<Rightarrow> rewriter_config" where
  "merge_rewriter_config r d =
     \<lparr>meta_optimizer_iterations =
        (if meta_optimizer_iterations d = DEFAULT_NUM_ITERS then meta_optimizer_iterations r
         else meta_optimizer_iterations d),
      min_graph_nodes = (if min_graph_nodes d = 0 then min_graph_nodes r else min_graph_nodes d),
      custom_optimizers = custom_optimizers r @ custom_optimizers d\<rparr>"

definition merge_graph_options :: "graph_options \<Rightarrow> graph_options \<Rightarrow> graph_options" where
  "merge_graph_options g d =
     (case rewrite_options d of
        None \<Rightarrow> g
      | Some rd \<Rightarrow>
          (case rewrite_options g of
             None \<Rightarrow> \<lparr>rewrite_options = Some rd\<rparr>
           | Some rg \<Rightarrow> \<lparr>rewrite_options = Some (merge_rewriter_config rg rd)\<rparr>))"

definition MergeFrom :: "config_proto \<Rightarrow> config_proto \<Rightarrow> config_proto" where
  "MergeFrom c d =
     (case config_graph_options d of
        None \<Rightarrow> c
      | Some gd \<Rightarrow>
          (case config_graph_options c of
             None \<Rightarrow> \<lparr>config_graph_options = Some gd\<rparr>
           | Some gc \<Rightarrow> \<lparr>config_graph_options = Some (merge_graph_options gc gd)\<rparr>))"

text \<open>
  \<^verbatim>\<open>
  def server_config_from_flags(FLAGS, tensor_param_name):
      rewriter_options = rewriter_config_pb2.RewriterConfig()
      rewriter_options.meta_optimizer_iterations = rewriter_config_pb2.RewriterConfig.ONE
      rewriter_options.min_graph_nodes = -1
      server_config = rewriter_options.custom_optimizers.add()
      server_config.name = "ngraph-optimizer"
      server_config.parameter_map["ngraph_backend"].s = FLAGS.backend.encode()
      server_config.parameter_map["device_id"].s = b""
      server_config.parameter_map[
          "encryption_parameters"].s = FLAGS.encryption_parameters.encode()
      server_config.parameter_map["enable_client"].s = (str(
          FLAGS.enable_client)).encode()
      if FLAGS.enable_client:
          server_config.parameter_map[tensor_param_name].s = b"client_input"

      config = tf.compat.v1.ConfigProto()
      config.MergeFrom(
          tf.compat.v1.ConfigProto(
              graph_options=tf.compat.v1.GraphOptions(
                  rewrite_options=rewriter_options)))

      return config
  \<close>
  The parameter map is written key by key, in the order of the source; a later write to a
  key that is already there replaces its value.
\<close>

definition server_config_parameter_map :: "FLAGS \<Rightarrow> string \<Rightarrow> (string \<rightharpoonup> bytes)" where
  "server_config_parameter_map F tensor_param_name =
     (let m1 = Map.empty(''ngraph_backend'' \<mapsto> encode (backend F));
          m2 = m1(''device_id'' \<mapsto> '''');
          m3 = m2(''encryption_parameters'' \<mapsto> encode (encryption_parameters F));
          m4 = m3(''enable_client'' \<mapsto> encode (str_of_bool (enable_client F)))
      in if enable_client F then m4(tensor_param_name \<mapsto> ''client_input'') else m4)"

definition server_config_from_flags :: "FLAGS \<Rightarrow> string \<Rightarrow> config_proto" where
  "server_config_from_flags F tensor_param_name =
     (let rewriter_options =
            RewriterConfig\<lparr>meta_optimizer_iterations := ONE, min_graph_nodes := - 1\<rparr>;
          server_config =
            \<lparr>name = ''ngraph-optimizer'',
             parameter_map = server_config_parameter_map F tensor_param_name\<rparr>;
          rewriter_options =
            rewriter_options\<lparr>custom_optimizers :=
              custom_optimizers rewriter_options @ [server_config]\<rparr>;
          config = ConfigProto
      in MergeFrom config
           \<lparr>config_graph_options = Some \<lparr>rewrite_options = Some rewriter_options\<rparr>\<rparr>)"

text \<open>
  The parameter map of the custom optimizer called \<open>nm\<close> in a session configuration, when
  the configuration has one.
\<close>

definition optimizer_parameter_map :: "string \<Rightarrow> config_proto \<Rightarrow> (string \<rightharpoonup> bytes) option" where
  "optimizer_parameter_map nm c =
     (case config_graph_options c of
        None \<Rightarrow> None
      | Some g \<Rightarrow>
          (case rewrite_options g of
             None \<Rightarrow> None
           | Some r \<Rightarrow>
               (case filter (\<lambda>opt. name opt = nm) (custom_optimizers r) of
                  [] \<Rightarrow> None
                | opt # _ \<Rightarrow> Some (parameter_map opt))))"

text \<open>The bytes bound to the key \<open>k\<close> in that parameter map, if any.\<close>

definition parameter_of :: "string \<Rightarrow> string \<Rightarrow> config_proto \<Rightarrow> bytes option" where
  "parameter_of nm k c =
     (case optimizer_parameter_map nm c of None \<Rightarrow> None | Some pm \<Rightarrow> pm k)"

section \<open>The logistic-regression notebook: \<open>sigmoid\<close>\<close>

text \<open>
  \<^verbatim>\<open>
  def sigmoid(x):
      coeffs = np.array([0.5, 0.197, 0.0, -0.004])
      return tfs.poly_eval(x, coeffs)
  \<close>
  \<open>tfs.poly_eval\<close> belongs to TF SEAL; it is a parameter of the model. The coefficients
  are the decimal literals of the source.
\<close>

definition coeffs :: "real list" where
  "coeffs = [5 / 10, 197 / 1000, 0, - (4 / 1000)]"

definition sigmoid :: "('t \<Rightarrow> real list \<Rightarrow> 't) \<Rightarrow> 't \<Rightarrow> 't" where
  "sigmoid poly_eval x = poly_eval x coeffs"

section \<open>The TF SEAL notebook: the plaintext side of the addition demonstration\<close>

text \<open>
  \<^verbatim>\<open>
  a_plain = np.random.normal(size=(1, 2)).astype(np.float32)
  b  = np.ones((2, 1)).astype(np.float32)
  d = tf.matmul(a_plain, b)
  \<close>
  A matrix is the list of its rows. \<open>np.ones((r, c))\<close> is the \<open>r\<close> by \<open>c\<close> matrix of ones.
  \<open>tf.matmul\<close> is TensorFlow's matrix product: entry \<open>(i, j)\<close> of the result is the sum,
  over \<open>k\<close> from left to right, of \<open>a[i][k] * b[k][j]\<close>; it rejects operands that are not
  matrices or whose inner dimensions differ.
\<close>

datatype tf_error = InvalidArgumentError

definition np_ones :: "nat \<Rightarrow> nat \<Rightarrow> 'a::one list list" where
  "np_ones r c = replicate r (replicate c 1)"

definition ncols :: "'a list list \<Rightarrow> nat" where
  "ncols m = (case m of [] \<Rightarrow> 0 | row # _ \<Rightarrow> length row)"

definition is_matrix :: "'a list list \<Rightarrow> bool" where
  "is_matrix m = list_all (\<lambda>row. length row = ncols m) m"

definition column :: "'a list list \<Rightarrow> nat \<Rightarrow> 'a list" where
  "column m j = map (\<lambda>row. row ! j) m"

definition dot :: "'a::semiring_0 list \<Rightarrow> 'a list \<Rightarrow> 'a" where
  "dot u v = foldl (+) 0 (map2 (*) u v)"

definition matmul :: "'a::semiring_0 list list \<Rightarrow> 'a list list \<Rightarrow> tf_error + 'a list list" where
  "matmul a b =
     (if is_matrix a \<and> is_matrix b \<and> ncols a = length b
      then Inr (map (\<lambda>row. map (\<lambda>j. dot row (column b j)) [0..<ncols b]) a)
      else Inl InvalidArgumentError)"

section \<open>The SEAL-on-Android notebook: the C\# encrypt/decrypt programs\<close>

subsection \<open>What the programs hand to the libraries\<close>

text \<open>
  Microsoft SEAL, \<open>System.Console\<close> and \<open>System.Diagnostics.Stopwatch\<close> are not part of
  the repository. A program is modelled by the calls it makes to them, in order, with their
  arguments. What a SEAL call leaves in its destination object is kept symbolic: the value
  records which call produced it and from what. The \<open>using\<close> declarations dispose of
  their objects when the method returns, after its last statement; these calls are not
  recorded.
\<close>

datatype scheme_type = SchemeType_None | BFV | CKKS

text \<open>The result of \<open>CoeffModulus.Create(polyModulusDegree, bitSizes)\<close>.\<close>

datatype coeff_modulus = CoeffModulus_Create "64 word" "int list"

record EncryptionParameters =
  Scheme :: scheme_type
  PolyModulusDegree :: "64 word option"
  CoeffModulus :: "coeff_modulus option"

text \<open>
  The contents of a \<open>Plaintext\<close>, a \<open>Ciphertext\<close> and the \<open>List<double>\<close>: fresh from its
  constructor, or written by \<open>Encode(value, scale, destination)\<close>,
  \<open>Decrypt(encrypted, destination)\<close>, \<open>Encrypt(plain, destination)\<close> and
  \<open>Decode(plain, destination)\<close>. Such a term says where the contents come from, not
  what they are: SEAL's encryption draws fresh randomness at every call, so two
  ciphertexts with the same term, and what is decrypted and decoded from them, are in
  general different values at run time.
\<close>

datatype plaintext = New_Plaintext | Encoded real real | Decrypted ciphertext
  and ciphertext = New_Ciphertext | Encrypted plaintext

datatype double_list = New_List | Decoded plaintext

text \<open>
  What is printed is the source's expression, unevaluated: the numbers are \<open>double\<close>s and
  the stopwatch readings are known at run time only. A printed line is the list of the
  pieces the source concatenates.
\<close>

datatype num =
    Double real
  | Result_0 plaintext
  | ElapsedMilliseconds
  | ElapsedTicks
  | Frequency
  | Times num num
  | Over num num

datatype piece = Text string | ToString num | ToString_format num string

datatype call =
    EncryptionParameters_ctor scheme_type
  | PolyModulusDegree_set "64 word"
  | CoeffModulus_set coeff_modulus
  | SEALContext_ctor EncryptionParameters
  | KeyGenerator_ctor
  | PublicKey_get
  | SecretKey_get
  | Encryptor_ctor
  | Decryptor_ctor
  | CKKSEncoder_ctor
  | Plaintext_ctor
  | Ciphertext_ctor
  | List_ctor
  | Stopwatch_ctor
  | Stopwatch_Start
  | Stopwatch_Stop
  | Encode real real
  | Encrypt plaintext
  | Decrypt ciphertext
  | Decode plaintext
  | Console_WriteLine "piece list"
  | LabelText_set "piece list"

datatype cs_exn = ArgumentOutOfRangeException

text \<open>
  The state of a run: the calls made so far, oldest first, and the objects the calls read
  and write. Before its declaration a variable holds what its constructor will put there;
  C\# lets no statement read it earlier.
\<close>

record state =
  calls :: "call list"
  parms :: EncryptionParameters
  xPlain :: plaintext
  plainResult :: plaintext
  x1Encrypted :: ciphertext
  result :: double_list

definition init :: state where
  "init =
     \<lparr>calls = [],
      parms = \<lparr>Scheme = SchemeType_None, PolyModulusDegree = None, CoeffModulus = None\<rparr>,
      xPlain = New_Plaintext, plainResult = New_Plaintext, x1Encrypted = New_Ciphertext,
      result = New_List\<rparr>"

definition log_call :: "call \<Rightarrow> state \<Rightarrow> state" where
  "log_call c s = s\<lparr>calls := calls s @ [c]\<rparr>"

subsection \<open>Statements\<close>

type_synonym stmt = "state \<Rightarrow> cs_exn + state"

text \<open>A block runs its statements in order and stops at the first exception.\<close>

fun block :: "stmt list \<Rightarrow> stmt" where
  "block [] s = Inr s"
| "block (f # fs) s = (case f s of Inl e \<Rightarrow> Inl e | Inr s' \<Rightarrow> block fs s')"

text \<open>
  \<open>for (int i = ...; i < n; i++) body\<close>. The counter stays between 0 and 1000 in every
  program, far from the bounds of \<open>int\<close>.
\<close>

function for_loop :: "int \<Rightarrow> int \<Rightarrow> stmt \<Rightarrow> stmt" where
  "for_loop i n body s =
     (if i < n
      then (case body s of Inl e \<Rightarrow> Inl e | Inr s' \<Rightarrow> for_loop (i + 1) n body s')
      else Inr s)"
  by pat_completeness auto
termination
  by (relation "measure (\<lambda>(i, n, body, s). nat (n - i))") auto

declare for_loop.simps [simp del]

text \<open>\<open>ulong polyModulusDegree = 8192;\<close> and \<open>double scale = Math.Pow(2.0, 40);\<close>\<close>

definition polyModulusDegree :: "64 word" where
  "polyModulusDegree = 8192"

definition Math_Pow :: "real \<Rightarrow> real \<Rightarrow> real" where
  "Math_Pow x y = x powr y"

definition scale :: real where
  "scale = Math_Pow 2 40"

text \<open>The literal \<open>2.718281828459\<close>.\<close>

definition e_literal :: real where
  "e_literal = 2718281828459 / 10 ^ 12"

text \<open>\<open>using EncryptionParameters parms = new EncryptionParameters(SchemeType.CKKS);\<close>\<close>

definition new_parms :: "scheme_type \<Rightarrow> stmt" where
  "new_parms sch s =
     Inr (log_call (EncryptionParameters_ctor sch)
       (s\<lparr>parms := \<lparr>Scheme = sch, PolyModulusDegree = None, CoeffModulus = None\<rparr>\<rparr>))"

text \<open>\<open>parms.PolyModulusDegree = polyModulusDegree;\<close>\<close>

definition set_PolyModulusDegree :: "64 word \<Rightarrow> stmt" where
  "set_PolyModulusDegree d s =
     Inr (log_call (PolyModulusDegree_set d) (s\<lparr>parms := (parms s)\<lparr>PolyModulusDegree := Some d\<rparr>\<rparr>))"

text \<open>\<open>parms.CoeffModulus = CoeffModulus.Create(polyModulusDegree, new int[]{ ... });\<close>\<close>

definition set_CoeffModulus :: "coeff_modulus \<Rightarrow> stmt" where
  "set_CoeffModulus m s =
     Inr (log_call (CoeffModulus_set m) (s\<lparr>parms := (parms s)\<lparr>CoeffModulus := Some m\<rparr>\<rparr>))"

text \<open>\<open>using SEALContext context = new SEALContext(parms);\<close> The context is built from the
  parameters as they are at this moment.\<close>

definition new_context :: stmt where
  "new_context s = Inr (log_call (SEALContext_ctor (parms s)) s)"

text \<open>A statement that only makes a call: the key generator, the keys, the encryptor, the
  decryptor, the encoder, the stopwatch.\<close>

definition do_call :: "call \<Rightarrow> stmt" where
  "do_call c s = Inr (log_call c s)"

text \<open>\<open>using Plaintext xPlain = new Plaintext();\<close> and the three declarations after it.\<close>

definition new_xPlain :: stmt where
  "new_xPlain s = Inr (log_call Plaintext_ctor (s\<lparr>xPlain := New_Plaintext\<rparr>))"

definition new_plainResult :: stmt where
  "new_plainResult s = Inr (log_call Plaintext_ctor (s\<lparr>plainResult := New_Plaintext\<rparr>))"

definition new_x1Encrypted :: stmt where
  "new_x1Encrypted s = Inr (log_call Ciphertext_ctor (s\<lparr>x1Encrypted := New_Ciphertext\<rparr>))"

definition new_result :: stmt where
  "new_result s = Inr (log_call List_ctor (s\<lparr>result := New_List\<rparr>))"

text \<open>\<open>encoder.Encode(2.718281828459, scale, xPlain);\<close>\<close>

definition encode_xPlain :: "real \<Rightarrow> real \<Rightarrow> stmt" where
  "encode_xPlain v sc s = Inr (log_call (Encode v sc) (s\<lparr>xPlain := Encoded v sc\<rparr>))"

text \<open>\<open>encryptor.Encrypt(xPlain, x1Encrypted);\<close>\<close>

definition encrypt_xPlain :: stmt where
  "encrypt_xPlain s =
     Inr (log_call (Encrypt (xPlain s)) (s\<lparr>x1Encrypted := Encrypted (xPlain s)\<rparr>))"

text \<open>\<open>decryptor.Decrypt(x1Encrypted, plainResult);\<close>\<close>

definition decrypt_x1Encrypted :: stmt where
  "decrypt_x1Encrypted s =
     Inr (log_call (Decrypt (x1Encrypted s)) (s\<lparr>plainResult := Decrypted (x1Encrypted s)\<rparr>))"

text \<open>\<open>encoder.Decode(plainResult, result);\<close>\<close>

definition decode_plainResult :: stmt where
  "decode_plainResult s =
     Inr (log_call (Decode (plainResult s)) (s\<lparr>result := Decoded (plainResult s)\<rparr>))"

text \<open>\<open>result[0]\<close>: the first element of the list, an exception when \<open>Decode\<close> has not
  filled it.\<close>

definition result_0 :: "state \<Rightarrow> cs_exn + num" where
  "result_0 s =
     (case result s of
        New_List \<Rightarrow> Inl ArgumentOutOfRangeException
      | Decoded p \<Rightarrow> Inr (Result_0 p))"

text \<open>An output statement whose text is built from \<open>result[0]\<close>: \<open>Console.WriteLine(...)\<close>
  or the assignment to \<open>LabelText\<close>.\<close>

definition output_with_result :: "(piece list \<Rightarrow> call) \<Rightarrow> (num \<Rightarrow> piece list) \<Rightarrow> stmt" where
  "output_with_result out text s =
     (case result_0 s of
        Inl e \<Rightarrow> Inl e
      | Inr r \<Rightarrow> Inr (log_call (out (text r)) s))"

subsection \<open>The programs\<close>

text \<open>
  Every program of the notebook, and the button handler, starts with the same statements:
  \<^verbatim>\<open>
  using EncryptionParameters parms = new EncryptionParameters(SchemeType.CKKS);
  ulong polyModulusDegree = 8192;
  parms.PolyModulusDegree = polyModulusDegree;
  parms.CoeffModulus = CoeffModulus.Create(
                  polyModulusDegree, new int[]{ 60, 40, 40, 60 });
  double scale = Math.Pow(2.0, 40);

  using SEALContext context = new SEALContext(parms);
  Console.WriteLine();

  using KeyGenerator keygen = new KeyGenerator(context);
  using PublicKey publicKey = keygen.PublicKey;
  using SecretKey secretKey = keygen.SecretKey;
  using Encryptor encryptor = new Encryptor(context, publicKey);
  using Decryptor decryptor = new Decryptor(context, secretKey);

  using CKKSEncoder encoder = new CKKSEncoder(context);

  using Plaintext xPlain = new Plaintext();
  using Plaintext plainResult = new Plaintext();
  using Ciphertext x1Encrypted = new Ciphertext();

  List<double> result = new List<double>();
  \<close>
\<close>

definition prologue :: "stmt list" where
  "prologue =
     [new_parms CKKS,
      set_PolyModulusDegree polyModulusDegree,
      set_CoeffModulus (CoeffModulus_Create polyModulusDegree [60, 40, 40, 60]),
      new_context,
      do_call (Console_WriteLine []),
      do_call KeyGenerator_ctor,
      do_call PublicKey_get,
      do_call SecretKey_get,
      do_call Encryptor_ctor,
      do_call Decryptor_ctor,
      do_call CKKSEncoder_ctor,
      new_xPlain,
      new_plainResult,
      new_x1Encrypted,
      new_result]"

text \<open>
  \<^verbatim>\<open>
  encoder.Encode(2.718281828459, scale, xPlain);
  encryptor.Encrypt(xPlain, x1Encrypted);
  decryptor.Decrypt(x1Encrypted, plainResult);
  encoder.Decode(plainResult, result);
  \<close>
\<close>

definition enc_dec_round :: "stmt list" where
  "enc_dec_round =
     [encode_xPlain e_literal scale,
      encrypt_xPlain,
      decrypt_x1Encrypted,
      decode_plainResult]"

text \<open>
  The first \<open>test.Main\<close>: no timing.
  \<^verbatim>\<open>
  Console.WriteLine(2.718281828459);
  Console.WriteLine(result[0]);
  \<close>
\<close>

definition Main_plain :: "cs_exn + state" where
  "Main_plain =
     block (prologue @ enc_dec_round @
       [do_call (Console_WriteLine [ToString (Double e_literal)]),
        output_with_result Console_WriteLine (\<lambda>r. [ToString r])]) init"

text \<open>
  The second \<open>test.Main\<close>: one round between \<open>stopWatch.Start()\<close> and \<open>stopWatch.Stop()\<close>.
  \<^verbatim>\<open>
  Console.WriteLine("Time taken: " + stopWatch.ElapsedMilliseconds.ToString() + "ms");
  \<close>
\<close>

definition Main_timed :: "cs_exn + state" where
  "Main_timed =
     block (prologue @ [do_call Stopwatch_ctor, do_call Stopwatch_Start] @ enc_dec_round @
       [do_call Stopwatch_Stop,
        do_call (Console_WriteLine [ToString (Double e_literal)]),
        output_with_result Console_WriteLine (\<lambda>r. [ToString r]),
        do_call (Console_WriteLine
          [Text ''Time taken: '', ToString ElapsedMilliseconds, Text ''ms''])]) init"

text \<open>
  The third \<open>test.Main\<close>: the round inside \<open>for (int i = 0; i < 1000; i++)\<close>.
  \<^verbatim>\<open>
  Console.WriteLine("Average Time taken: " + (stopWatch.ElapsedMilliseconds/1000.0).ToString() + "ms");
  \<close>
\<close>

definition Main_averaged :: "cs_exn + state" where
  "Main_averaged =
     block (prologue @ [do_call Stopwatch_ctor, do_call Stopwatch_Start] @
       [for_loop 0 1000 (block enc_dec_round)] @
       [do_call Stopwatch_Stop,
        do_call (Console_WriteLine [ToString (Double e_literal)]),
        output_with_result Console_WriteLine (\<lambda>r. [ToString r]),
        do_call (Console_WriteLine
          [Text ''Average Time taken: '',
           ToString (Over ElapsedMilliseconds (Double 1000)), Text ''ms''])]) init"

text \<open>
  The later version of the notebook has the same three programs with labelled output and
  ticks in place of milliseconds.
  \<^verbatim>\<open>
  Console.WriteLine("Original: " + (2.718281828459).ToString());
  Console.WriteLine("Enc/Dec:  " + (result[0]).ToString("#.############"));
  \<close>
\<close>

definition Main_plain_labelled :: "cs_exn + state" where
  "Main_plain_labelled =
     block (prologue @ enc_dec_round @
       [do_call (Console_WriteLine [Text ''Original: '', ToString (Double e_literal)]),
        output_with_result Console_WriteLine
          (\<lambda>r. [Text ''Enc/Dec:  '', ToString_format r ''#.############''])]) init"

text \<open>
  \<^verbatim>\<open>
  Console.WriteLine("Time taken: " + (1000.0*stopWatch.ElapsedTicks/(Stopwatch.Frequency)).ToString() + "ms");
  \<close>
\<close>

definition Main_timed_ticks :: "cs_exn + state" where
  "Main_timed_ticks =
     block (prologue @ [do_call Stopwatch_ctor, do_call Stopwatch_Start] @ enc_dec_round @
       [do_call Stopwatch_Stop,
        do_call (Console_WriteLine [Text ''Original:   '', ToString (Double e_literal)]),
        output_with_result Console_WriteLine
          (\<lambda>r. [Text ''Enc/Dec:    '', ToString_format r ''#.############'']),
        do_call (Console_WriteLine
          [Text ''Time taken: '',
           ToString (Over (Times (Double 1000) ElapsedTicks) Frequency), Text ''ms''])]) init"

text \<open>
  \<^verbatim>\<open>
  Console.WriteLine("Time taken: " + (1.0*stopWatch.ElapsedTicks/(Stopwatch.Frequency)).ToString("##.###") + "ms on average per enc/dec");
  \<close>
\<close>

definition Main_averaged_ticks :: "cs_exn + state" where
  "Main_averaged_ticks =
     block (prologue @ [do_call Stopwatch_ctor, do_call Stopwatch_Start] @
       [for_loop 0 1000 (block enc_dec_round)] @
       [do_call Stopwatch_Stop,
        do_call (Console_WriteLine [Text ''Original:   '', ToString (Double e_literal)]),
        output_with_result Console_WriteLine
          (\<lambda>r. [Text ''Enc/Dec:    '', ToString_format r ''#.############'']),
        do_call (Console_WriteLine
          [Text ''Time taken: '',
           ToString_format (Over (Times (Double 1) ElapsedTicks) Frequency) ''##.###'',
           Text ''ms on average per enc/dec''])]) init"

text \<open>
  The button handler of the Xamarin page: the loop of the averaged program, and one
  assignment to \<open>LabelText\<close> in place of the three lines on the console. The assignment
  is a call of the property's setter, which the cell before the handler writes as
  \<open>labelText = value; OnPropertyChanged(nameof(LabelText));\<close>. The listing of the whole
  \<open>MainPage.xaml.cs\<close> at the end of the notebook repeats the handler word for word, but
  there the property reads and writes \<open>LabelText\<close>, itself, in place of the field
  \<open>labelText\<close>; the model follows the cell.
  \<^verbatim>\<open>
  LabelText = "Original: " + (2.718281828459).ToString()
    + "\nEnc/Dec: " + (result[0]).ToString("#.############")
    + "\nTime taken: " + (1.0 * stopWatch.ElapsedTicks / (Stopwatch.Frequency)).ToString("##.###")
    + "ms on average per enc/dec";
  \<close>
\<close>

definition Handle_Clicked :: "cs_exn + state" where
  "Handle_Clicked =
     block (prologue @ [do_call Stopwatch_ctor, do_call Stopwatch_Start] @
       [for_loop 0 1000 (block enc_dec_round)] @
       [do_call Stopwatch_Stop,
        output_with_result LabelText_set
          (\<lambda>r. [Text ''Original: '', ToString (Double e_literal),
                Text ''\<newline>Enc/Dec: '', ToString_format r ''#.############'',
                Text ''\<newline>Time taken: '',
                ToString_format (Over (Times (Double 1) ElapsedTicks) Frequency) ''##.###'',
                Text ''ms on average per enc/dec''])]) init"

text \<open>
  The statements of the handler before its assignment to \<open>LabelText\<close>, from
  \<open>using EncryptionParameters parms = ...\<close> to \<open>stopWatch.Stop();\<close>. They are the same
  in the cell and in the final listing, and every call the handler makes into SEAL is made
  by them: the assignment, the handler's last statement, calls the property's setter only.
\<close>

definition Handle_Clicked_before_label :: "cs_exn + state" where
  "Handle_Clicked_before_label =
     block (prologue @ [do_call Stopwatch_ctor, do_call Stopwatch_Start] @
       [for_loop 0 1000 (block enc_dec_round)] @
       [do_call Stopwatch_Stop]) init"

subsection \<open>Reading a run\<close>

text \<open>The calls of a run that ended without an exception; none otherwise.\<close>

definition trace :: "cs_exn + state \<Rightarrow> call list" where
  "trace r = (case r of Inl e \<Rightarrow> [] | Inr s \<Rightarrow> calls s)"

definition completed :: "cs_exn + state \<Rightarrow> bool" where
  "completed r = (case r of Inl e \<Rightarrow> False | Inr s \<Rightarrow> True)"

text \<open>The calls into Microsoft SEAL: all but the console, the label and the stopwatch.\<close>

fun is_seal_call :: "call \<Rightarrow> bool" where
  "is_seal_call (Console_WriteLine _) = False"
| "is_seal_call (LabelText_set _) = False"
| "is_seal_call Stopwatch_ctor = False"
| "is_seal_call Stopwatch_Start = False"
| "is_seal_call Stopwatch_Stop = False"
| "is_seal_call _ = True"

definition seal_calls :: "cs_exn + state \<Rightarrow> call list" where
  "seal_calls r = filter is_seal_call (trace r)"

text \<open>The four calls of an encrypt/decrypt round.\<close>

fun is_round_call :: "call \<Rightarrow> bool" where
  "is_round_call (Encode _ _) = True"
| "is_round_call (Encrypt _) = True"
| "is_round_call (Decrypt _) = True"
| "is_round_call (Decode _) = True"
| "is_round_call _ = False"

fun is_parms_ctor :: "call \<Rightarrow> bool" where
  "is_parms_ctor (EncryptionParameters_ctor _) = True"
| "is_parms_ctor _ = False"

fun is_context_ctor :: "call \<Rightarrow> bool" where
  "is_context_ctor (SEALContext_ctor _) = True"
| "is_context_ctor _ = False"

fun is_keygen_ctor :: "call \<Rightarrow> bool" where
  "is_keygen_ctor KeyGenerator_ctor = True"
| "is_keygen_ctor _ = False"

fun is_Encrypt :: "call \<Rightarrow> bool" where
  "is_Encrypt (Encrypt _) = True"
| "is_Encrypt _ = False"

fun is_Encode :: "call \<Rightarrow> bool" where
  "is_Encode (Encode _ _) = True"
| "is_Encode _ = False"

fun is_parms_write :: "call \<Rightarrow> bool" where
  "is_parms_write (EncryptionParameters_ctor _) = True"
| "is_parms_write (PolyModulusDegree_set _) = True"
| "is_parms_write (CoeffModulus_set _) = True"
| "is_parms_write _ = False"

text \<open>The position of the first call of a kind; the length of the list when there is none.\<close>

definition first_index :: "(call \<Rightarrow> bool) \<Rightarrow> call list \<Rightarrow> nat" where
  "first_index P t = length (takeWhile (\<lambda>c. \<not> P c) t)"

definition count_calls :: "(call \<Rightarrow> bool) \<Rightarrow> call list \<Rightarrow> nat" where
  "count_calls P t = length (filter P t)"

text \<open>The calls of the common start and of one round, as the source orders them.\<close>

definition the_parms :: EncryptionParameters where
  "the_parms =
     \<lparr>Scheme = CKKS, PolyModulusDegree = Some 8192,
      CoeffModulus = Some (CoeffModulus_Create 8192 [60, 40, 40, 60])\<rparr>"

definition prologue_trace :: "call list" where
  "prologue_trace =
     [EncryptionParameters_ctor CKKS,
      PolyModulusDegree_set 8192,
      CoeffModulus_set (CoeffModulus_Create 8192 [60, 40, 40, 60]),
      SEALContext_ctor the_parms,
      Console_WriteLine [],
      KeyGenerator_ctor, PublicKey_get, SecretKey_get, Encryptor_ctor, Decryptor_ctor,
      CKKSEncoder_ctor, Plaintext_ctor, Plaintext_ctor, Ciphertext_ctor, List_ctor]"

definition prologue_calls :: "call list" where
  "prologue_calls = filter is_seal_call prologue_trace"

definition round_calls :: "call list" where
  "round_calls =
     [Encode e_literal (2 ^ 40),
      Encrypt (Encoded e_literal (2 ^ 40)),
      Decrypt (Encrypted (Encoded e_literal (2 ^ 40))),
      Decode (Decrypted (Encrypted (Encoded e_literal (2 ^ 40))))]"

text \<open>
  The order the calls of a run with \<open>n\<close> rounds are made in: the parameters are constructed
  first, then the context, then the one key generator, then the first encryption; the
  round calls are \<open>n\<close> times Encode, Encrypt, Decrypt, Decode, each on what the call before
  it produced; no Decrypt reads a ciphertext fresh from its constructor.
\<close>

definition fixed_sequence :: "nat \<Rightarrow> call list \<Rightarrow> bool" where
  "fixed_sequence n t \<longleftrightarrow>
     first_index is_parms_ctor t = 0 \<and>
     first_index is_parms_ctor t < first_index is_context_ctor t \<and>
     first_index is_context_ctor t < first_index is_keygen_ctor t \<and>
     first_index is_keygen_ctor t < first_index is_Encrypt t \<and>
     first_index is_Encrypt t < length t \<and>
     count_calls is_parms_ctor t = 1 \<and>
     count_calls is_context_ctor t = 1 \<and>
     count_calls is_keygen_ctor t = 1 \<and>
     filter is_round_call t = concat (replicate n round_calls) \<and>
     filter (\<lambda>c. c = Decrypt New_Ciphertext) t = []"

text \<open>
  The parameters every context of a run is built from, the scale of every encoding, and
  no write to the parameters from the construction of the context on.
\<close>

definition parameter_invariant :: "nat \<Rightarrow> call list \<Rightarrow> bool" where
  "parameter_invariant n t \<longleftrightarrow>
     filter is_context_ctor t = [SEALContext_ctor the_parms] \<and>
     filter is_Encode t = replicate n (Encode e_literal (2 ^ 40)) \<and>
     filter is_parms_write (dropWhile (\<lambda>c. \<not> is_context_ctor c) t) = []"

text \<open>The plaintext a round decrypts: where it comes from.\<close>

definition decoded_e :: plaintext where
  "decoded_e = Decrypted (Encrypted (Encoded e_literal (2 ^ 40)))"

subsection \<open>States used in the proofs\<close>

text \<open>The state after the common start, after one round, and after \<open>k\<close> rounds.\<close>

definition after_prologue :: state where
  "after_prologue =
     \<lparr>calls = prologue_trace,
      parms = the_parms,
      xPlain = New_Plaintext, plainResult = New_Plaintext, x1Encrypted = New_Ciphertext,
      result = New_List\<rparr>"

definition after_round :: "state \<Rightarrow> state" where
  "after_round s =
     s\<lparr>calls := calls s @ round_calls,
       xPlain := Encoded e_literal (2 ^ 40),
       x1Encrypted := Encrypted (Encoded e_literal (2 ^ 40)),
       plainResult := decoded_e,
       result := Decoded decoded_e\<rparr>"

definition after_rounds :: "nat \<Rightarrow> state \<Rightarrow> state" where
  "after_rounds k s =
     (if k = 0 then s
      else (after_round s)\<lparr>calls := calls s @ concat (replicate k round_calls)\<rparr>)"

text \<open>The state a run ends in, given the calls it made.\<close>

definition final_state :: "call list \<Rightarrow> state" where
  "final_state t =
     \<lparr>calls = t,
      parms = the_parms,
      xPlain = Encoded e_literal (2 ^ 40),
      plainResult = decoded_e,
      x1Encrypted = Encrypted (Encoded e_literal (2 ^ 40)),
      result = Decoded decoded_e\<rparr>"

section \<open>Properties of the command-line helpers\<close>

lemma lower_char_idem: "lower_char (lower_char c) = lower_char c"
  by (simp add: lower_char_def)

lemma lower_idem: "lower (lower v) = lower v"
  by (simp add: lower_def lower_char_idem)

text \<open>
  Claim C7. \<open>str2bool\<close> returns a \<open>bool\<close> unchanged. For a string it returns \<open>True\<close> when
  the lower-case form is one of "on", "yes", "true", "t", "y", "1", \<open>False\<close> when it is one
  of "off", "no", "false", "f", "n", "0", and raises \<open>ArgumentTypeError\<close> otherwise. The
  result depends on the string through its lower-case form only, and an exception is
  raised exactly for a string whose lower-case form is in neither set.
\<close>

theorem str2bool_spec:
  "str2bool (PyBool b) = Inr b \<and>
   str2bool (PyStr s) =
     (if lower s \<in> {''on'', ''yes'', ''true'', ''t'', ''y'', ''1''} then Inr True
      else if lower s \<in> {''off'', ''no'', ''false'', ''f'', ''n'', ''0''} then Inr False
      else Inl (ArgumentTypeError ''Boolean value expected.'')) \<and>
   str2bool (PyStr (lower s)) = str2bool (PyStr s) \<and>
   (lower s = lower t \<longrightarrow> str2bool (PyStr s) = str2bool (PyStr t)) \<and>
   ((\<exists>e. str2bool v = Inl e) \<longleftrightarrow>
    (\<exists>u. v = PyStr u \<and>
         lower u \<notin> {''on'', ''yes'', ''true'', ''t'', ''y'', ''1''} \<union>
                   {''off'', ''no'', ''false'', ''f'', ''n'', ''0''}))"
proof (intro conjI)
  show "str2bool (PyBool b) = Inr b"
    by simp
  show "str2bool (PyStr s) =
     (if lower s \<in> {''on'', ''yes'', ''true'', ''t'', ''y'', ''1''} then Inr True
      else if lower s \<in> {''off'', ''no'', ''false'', ''f'', ''n'', ''0''} then Inr False
      else Inl (ArgumentTypeError ''Boolean value expected.''))"
    by simp
  show "str2bool (PyStr (lower s)) = str2bool (PyStr s)"
    by (simp only: str2bool.simps lower_idem)
  show "lower s = lower t \<longrightarrow> str2bool (PyStr s) = str2bool (PyStr t)"
    by simp
  show "(\<exists>e. str2bool v = Inl e) \<longleftrightarrow>
    (\<exists>u. v = PyStr u \<and>
         lower u \<notin> {''on'', ''yes'', ''true'', ''t'', ''y'', ''1''} \<union>
                   {''off'', ''no'', ''false'', ''f'', ''n'', ''0''})"
    by (cases v) auto
qed

theorem str2bool_spec_witness:
  "lower ''YES'' = lower ''yes'' \<and>
   str2bool (PyStr ''YES'') = Inr True \<and>
   str2bool (PyStr ''YES'') = str2bool (PyStr ''yes'') \<and>
   str2bool (PyBool False) = Inr False \<and>
   (\<exists>e. str2bool (PyStr ''maybe'') = Inl e)"
  using str2bool_spec [of False "''YES''" "''yes''" "PyStr ''maybe''"]
  by (simp add: lower_def lower_char_def)

lemma server_config_from_flags_eq:
  "server_config_from_flags F tensor_param_name =
     \<lparr>config_graph_options = Some \<lparr>rewrite_options = Some
        \<lparr>meta_optimizer_iterations = ONE, min_graph_nodes = - 1,
         custom_optimizers =
           [\<lparr>name = ''ngraph-optimizer'',
             parameter_map = server_config_parameter_map F tensor_param_name\<rparr>]\<rparr>\<rparr>\<rparr>"
  by (simp add: server_config_from_flags_def MergeFrom_def ConfigProto_def RewriterConfig_def)

lemma parameter_of_server_config:
  "parameter_of ''ngraph-optimizer'' k (server_config_from_flags F tensor_param_name) =
     server_config_parameter_map F tensor_param_name k"
  by (simp add: parameter_of_def optimizer_parameter_map_def server_config_from_flags_eq)

text \<open>
  Claim C8, as stated, fails when \<open>tensor_param_name\<close> is one of the four fixed keys and the
  client is enabled: with \<open>tensor_param_name = "device_id"\<close> the last write replaces the
  empty byte string by \<open>b"client_input"\<close>.
\<close>

theorem server_config_key_collision:
  "parameter_of ''ngraph-optimizer'' ''device_id''
     (server_config_from_flags
        \<lparr>batch_size = 1, enable_client = True, backend = ''HE_SEAL'',
         encryption_parameters = ''params.json''\<rparr> ''device_id'') = Some ''client_input'' \<and>
   parameter_of ''ngraph-optimizer'' ''device_id''
     (server_config_from_flags
        \<lparr>batch_size = 1, enable_client = True, backend = ''HE_SEAL'',
         encryption_parameters = ''params.json''\<rparr> ''device_id'') \<noteq> Some []"
  by (simp add: parameter_of_server_config server_config_parameter_map_def)

text \<open>
  Claim C8, amended. For every \<open>FLAGS\<close> and every \<open>tensor_param_name\<close> that is none of
  "ngraph_backend", "device_id", "encryption_parameters", "enable_client",
  \<open>server_config_from_flags\<close> returns a \<open>ConfigProto\<close> whose \<open>ngraph-optimizer\<close> parameter map
  binds "ngraph_backend" to the encoded \<open>FLAGS.backend\<close>, "device_id" to the empty byte
  string, "encryption_parameters" to the encoded \<open>FLAGS.encryption_parameters\<close> and
  "enable_client" to the encoded string form of \<open>FLAGS.enable_client\<close>, and binds
  \<open>tensor_param_name\<close> to \<open>b"client_input"\<close> if and only if \<open>FLAGS.enable_client\<close> is true.
\<close>

theorem server_config_parameter_bindings:
  assumes "tensor_param_name \<notin>
             {''ngraph_backend'', ''device_id'', ''encryption_parameters'', ''enable_client''}"
  shows "parameter_of ''ngraph-optimizer'' ''ngraph_backend''
           (server_config_from_flags F tensor_param_name) = Some (encode (backend F)) \<and>
         parameter_of ''ngraph-optimizer'' ''device_id''
           (server_config_from_flags F tensor_param_name) = Some [] \<and>
         parameter_of ''ngraph-optimizer'' ''encryption_parameters''
           (server_config_from_flags F tensor_param_name)
             = Some (encode (encryption_parameters F)) \<and>
         parameter_of ''ngraph-optimizer'' ''enable_client''
           (server_config_from_flags F tensor_param_name)
             = Some (encode (str_of_bool (enable_client F))) \<and>
         (parameter_of ''ngraph-optimizer'' tensor_param_name
            (server_config_from_flags F tensor_param_name) = Some ''client_input''
          \<longleftrightarrow> enable_client F)"
  using assms
  by (auto simp add: parameter_of_server_config server_config_parameter_map_def Let_def)

theorem server_config_parameter_bindings_witness:
  "''client_parameter_name:0'' \<notin>
     {''ngraph_backend'', ''device_id'', ''encryption_parameters'', ''enable_client''} \<and>
   parameter_of ''ngraph-optimizer'' ''ngraph_backend''
     (server_config_from_flags
        \<lparr>batch_size = 1, enable_client = True, backend = ''HE_SEAL'',
         encryption_parameters = ''params.json''\<rparr> ''client_parameter_name:0'')
       = Some ''HE_SEAL'' \<and>
   parameter_of ''ngraph-optimizer'' ''device_id''
     (server_config_from_flags
        \<lparr>batch_size = 1, enable_client = True, backend = ''HE_SEAL'',
         encryption_parameters = ''params.json''\<rparr> ''client_parameter_name:0'')
       = Some [] \<and>
   parameter_of ''ngraph-optimizer'' ''enable_client''
     (server_config_from_flags
        \<lparr>batch_size = 1, enable_client = True, backend = ''HE_SEAL'',
         encryption_parameters = ''params.json''\<rparr> ''client_parameter_name:0'')
       = Some ''True'' \<and>
   parameter_of ''ngraph-optimizer'' ''client_parameter_name:0''
     (server_config_from_flags
        \<lparr>batch_size = 1, enable_client = True, backend = ''HE_SEAL'',
         encryption_parameters = ''params.json''\<rparr> ''client_parameter_name:0'')
       = Some ''client_input''"
proof -
  have h: "''client_parameter_name:0'' \<notin>
     {''ngraph_backend'', ''device_id'', ''encryption_parameters'', ''enable_client''}"
    by simp
  show ?thesis
    using h server_config_parameter_bindings [OF h,
        of "\<lparr>batch_size = 1, enable_client = True, backend = ''HE_SEAL'',
             encryption_parameters = ''params.json''\<rparr>"]
    by (simp add: encode_def encode_char_def str_of_bool_def)
qed

text \<open>
  Claim C2, as stated, fails: \<open>str2bool\<close>, a function the repository defines, validates its
  input and raises an exception on a string it does not know.
\<close>

theorem str2bool_raises:
  "str2bool (PyStr ''maybe'') = Inl (ArgumentTypeError ''Boolean value expected.'')"
  by (simp add: lower_def lower_char_def)

text \<open>
  Claim C2, amended. Three functions the repository defines do more than import, construct
  parameters, call, time and print: \<open>str2bool\<close> validates its input and raises
  \<open>ArgumentTypeError\<close> for a string whose lower-case form is in neither keyword tuple;
  \<open>sigmoid\<close> defines the approximation coefficients 0.5, 0.197, 0.0, -0.004 that it passes
  to \<open>tfs.poly_eval\<close>; \<open>server_config_from_flags\<close> builds a \<open>ConfigProto\<close> whose rewriter
  options run the meta optimizer once, have \<open>min_graph_nodes = -1\<close> and hold one custom
  optimizer, named "ngraph-optimizer", with the parameter map the function wrote.
\<close>

theorem helpers_compute:
  "(lower s \<notin> set [''on'', ''yes'', ''true'', ''t'', ''y'', ''1''] \<union>
              set [''off'', ''no'', ''false'', ''f'', ''n'', ''0'']
      \<longrightarrow> str2bool (PyStr s) = Inl (ArgumentTypeError ''Boolean value expected.'')) \<and>
   sigmoid poly_eval x = poly_eval x [5 / 10, 197 / 1000, 0, - (4 / 1000)] \<and>
   server_config_from_flags F tensor_param_name =
     \<lparr>config_graph_options = Some \<lparr>rewrite_options = Some
        \<lparr>meta_optimizer_iterations = ONE, min_graph_nodes = - 1,
         custom_optimizers =
           [\<lparr>name = ''ngraph-optimizer'',
             parameter_map = server_config_parameter_map F tensor_param_name\<rparr>]\<rparr>\<rparr>\<rparr>"
  by (simp add: sigmoid_def coeffs_def server_config_from_flags_eq)

theorem helpers_compute_witness:
  "lower ''perhaps'' \<notin> set [''on'', ''yes'', ''true'', ''t'', ''y'', ''1''] \<union>
              set [''off'', ''no'', ''false'', ''f'', ''n'', ''0''] \<and>
   str2bool (PyStr ''perhaps'') = Inl (ArgumentTypeError ''Boolean value expected.'')"
proof -
  have h: "lower ''perhaps'' \<notin> set [''on'', ''yes'', ''true'', ''t'', ''y'', ''1''] \<union>
              set [''off'', ''no'', ''false'', ''f'', ''n'', ''0'']"
    by (simp add: lower_def lower_char_def)
  from helpers_compute [of "''perhaps''", THEN conjunct1, THEN mp, OF h] h
  show ?thesis
    by (intro conjI)
qed

section \<open>The ones column sums a row\<close>

lemma one_by_two:
  assumes "is_matrix a" "length a = 1" "ncols a = 2"
  shows "\<exists>x y. a = [ [x, y] ]"
proof -
  from assms(2) obtain r where a: "a = [r]"
    by (cases a) auto
  with assms(3) have "length r = 2"
    by (simp add: ncols_def)
  then obtain x y where "r = [x, y]"
    by (cases r; simp) (metis length_0_conv length_Suc_conv)
  with a show ?thesis
    by simp
qed

lemma matmul_row_ones:
  "matmul [ [x, y] ] (np_ones 2 1) = Inr [ [x + y :: 'a :: semiring_1] ]"
  by (simp add: matmul_def np_ones_def is_matrix_def ncols_def column_def dot_def
      numeral_2_eq_2)

text \<open>
  Claim C9. For every 1 by 2 matrix \<open>a\<close> and the 2 by 1 matrix of ones \<open>np.ones((2,1))\<close>, the
  matrix product is the 1 by 1 matrix whose entry is \<open>a[0][0] + a[0][1]\<close>. The entries
  are of any type with a zero, a one, an addition and a multiplication that obey
  \<open>0 + x = x\<close> and \<open>x * 1 = x\<close>.
\<close>

theorem matmul_ones_is_sum:
  fixes a :: "'a::semiring_1 list list"
  assumes "is_matrix a" "length a = 1" "ncols a = 2"
  shows "matmul a (np_ones 2 1) = Inr [ [a ! 0 ! 0 + a ! 0 ! 1] ]"
proof -
  from one_by_two [OF assms] obtain x y where "a = [ [x, y] ]"
    by blast
  then show ?thesis
    using matmul_row_ones [of x y] by simp
qed

theorem matmul_ones_is_sum_witness:
  "is_matrix [ [3, 4 :: int] ] \<and> length [ [3, 4 :: int] ] = 1 \<and> ncols [ [3, 4 :: int] ] = 2 \<and>
   matmul [ [3, 4 :: int] ] (np_ones 2 1) = Inr [ [7] ]"
proof -
  have h: "is_matrix [ [3, 4 :: int] ]" "length [ [3, 4 :: int] ] = 1" "ncols [ [3, 4 :: int] ] = 2"
    by (simp_all add: is_matrix_def ncols_def)
  from matmul_ones_is_sum [OF h] h show ?thesis
    by simp
qed

section \<open>Properties of the C\# programs\<close>

subsection \<open>What a run does\<close>

lemma scale_eq: "scale = 2 ^ 40"
  by (simp add: scale_def Math_Pow_def)

lemma block_append:
  "block (fs @ gs) s = (case block fs s of Inl e \<Rightarrow> Inl e | Inr s' \<Rightarrow> block gs s')"
  by (induction fs arbitrary: s) (auto split: sum.splits)

lemmas stmt_defs = new_parms_def set_PolyModulusDegree_def set_CoeffModulus_def new_context_def
  do_call_def new_xPlain_def new_plainResult_def new_x1Encrypted_def new_result_def
  encode_xPlain_def encrypt_xPlain_def decrypt_x1Encrypted_def decode_plainResult_def
  log_call_def

lemma prologue_run: "block prologue init = Inr after_prologue"
  by (simp add: prologue_def init_def after_prologue_def stmt_defs prologue_trace_def
      the_parms_def polyModulusDegree_def)

lemma round_run: "block enc_dec_round s = Inr (after_round s)"
  by (simp add: enc_dec_round_def after_round_def stmt_defs round_calls_def scale_eq
      decoded_e_def)

lemma after_round_after_rounds: "after_rounds k (after_round s) = after_rounds (Suc k) s"
  by (simp add: after_rounds_def after_round_def)

text \<open>The loop returns, after as many rounds as the counter has left to go.\<close>

lemma for_loop_rounds:
  "for_loop i n (block enc_dec_round) s = Inr (after_rounds (nat (n - i)) s)"
proof (induction i n "block enc_dec_round" s rule: for_loop.induct)
  case (1 i n s)
  show ?case
  proof (cases "i < n")
    case True
    then have k: "nat (n - i) = Suc (nat (n - (i + 1)))"
      by simp
    from True have "for_loop i n (block enc_dec_round) s
        = for_loop (i + 1) n (block enc_dec_round) (after_round s)"
      by (subst for_loop.simps) (simp add: round_run)
    also have "\<dots> = Inr (after_rounds (nat (n - (i + 1))) (after_round s))"
      using "1" True round_run by simp
    finally show ?thesis
      by (simp only: after_round_after_rounds k)
  next
    case False
    then show ?thesis
      by (subst for_loop.simps) (simp add: after_rounds_def)
  qed
qed

lemma loop_1000: "for_loop 0 1000 (block enc_dec_round) s = Inr (after_rounds 1000 s)"
  using for_loop_rounds [of 0 1000 s] by simp

lemmas run_defs = block_append prologue_run round_run loop_1000 do_call_def
  output_with_result_def result_0_def log_call_def after_round_def after_rounds_def
  after_prologue_def final_state_def

lemma Main_plain_run:
  "Main_plain = Inr (final_state (prologue_trace @ round_calls @
     [Console_WriteLine [ToString (Double e_literal)],
      Console_WriteLine [ToString (Result_0 decoded_e)] ]))"
  by (simp add: Main_plain_def run_defs)

lemma Main_timed_run:
  "Main_timed = Inr (final_state (prologue_trace @ [Stopwatch_ctor, Stopwatch_Start] @
     round_calls @
     [Stopwatch_Stop,
      Console_WriteLine [ToString (Double e_literal)],
      Console_WriteLine [ToString (Result_0 decoded_e)],
      Console_WriteLine [Text ''Time taken: '', ToString ElapsedMilliseconds, Text ''ms''] ]))"
  by (simp add: Main_timed_def run_defs)

lemma Main_averaged_run:
  "Main_averaged = Inr (final_state (prologue_trace @ [Stopwatch_ctor, Stopwatch_Start] @
     concat (replicate 1000 round_calls) @
     [Stopwatch_Stop,
      Console_WriteLine [ToString (Double e_literal)],
      Console_WriteLine [ToString (Result_0 decoded_e)],
      Console_WriteLine [Text ''Average Time taken: '',
        ToString (Over ElapsedMilliseconds (Double 1000)), Text ''ms''] ]))"
  by (simp add: Main_averaged_def run_defs)

lemma Main_plain_labelled_run:
  "Main_plain_labelled = Inr (final_state (prologue_trace @ round_calls @
     [Console_WriteLine [Text ''Original: '', ToString (Double e_literal)],
      Console_WriteLine
        [Text ''Enc/Dec:  '', ToString_format (Result_0 decoded_e) ''#.############''] ]))"
  by (simp add: Main_plain_labelled_def run_defs)

lemma Main_timed_ticks_run:
  "Main_timed_ticks = Inr (final_state (prologue_trace @ [Stopwatch_ctor, Stopwatch_Start] @
     round_calls @
     [Stopwatch_Stop,
      Console_WriteLine [Text ''Original:   '', ToString (Double e_literal)],
      Console_WriteLine
        [Text ''Enc/Dec:    '', ToString_format (Result_0 decoded_e) ''#.############''],
      Console_WriteLine [Text ''Time taken: '',
        ToString (Over (Times (Double 1000) ElapsedTicks) Frequency), Text ''ms''] ]))"
  by (simp add: Main_timed_ticks_def run_defs)

lemma Main_averaged_ticks_run:
  "Main_averaged_ticks = Inr (final_state (prologue_trace @ [Stopwatch_ctor, Stopwatch_Start] @
     concat (replicate 1000 round_calls) @
     [Stopwatch_Stop,
      Console_WriteLine [Text ''Original:   '', ToString (Double e_literal)],
      Console_WriteLine
        [Text ''Enc/Dec:    '', ToString_format (Result_0 decoded_e) ''#.############''],
      Console_WriteLine [Text ''Time taken: '',
        ToString_format (Over (Times (Double 1) ElapsedTicks) Frequency) ''##.###'',
        Text ''ms on average per enc/dec''] ]))"
  by (simp add: Main_averaged_ticks_def run_defs)

lemma Handle_Clicked_run:
  "Handle_Clicked = Inr (final_state (prologue_trace @ [Stopwatch_ctor, Stopwatch_Start] @
     concat (replicate 1000 round_calls) @
     [Stopwatch_Stop,
      LabelText_set [Text ''Original: '', ToString (Double e_literal),
        Text ''\<newline>Enc/Dec: '', ToString_format (Result_0 decoded_e) ''#.############'',
        Text ''\<newline>Time taken: '',
        ToString_format (Over (Times (Double 1) ElapsedTicks) Frequency) ''##.###'',
        Text ''ms on average per enc/dec''] ]))"
  by (simp add: Handle_Clicked_def run_defs)

lemmas all_runs = Main_plain_run Main_timed_run Main_averaged_run Main_plain_labelled_run
  Main_timed_ticks_run Main_averaged_ticks_run Handle_Clicked_run

subsection \<open>Lists of repeated rounds\<close>

lemma filter_concat_replicate:
  "filter P (concat (replicate n xs)) = concat (replicate n (filter P xs))"
  by (induction n) simp_all

lemma concat_replicate_Nil: "concat (replicate n []) = []"
  by (induction n) simp_all

lemma concat_replicate_single: "concat (replicate n [x]) = replicate n x"
  by (induction n) simp_all

lemma concat_replicate_one: "concat (replicate (Suc 0) xs) = xs"
  by simp

lemma length_concat_replicate: "length (concat (replicate n xs)) = n * length xs"
  by (induction n) simp_all

lemma filter_no_seal:
  assumes "list_all (\<lambda>c. \<not> is_seal_call c) xs" and "\<And>c. P c \<Longrightarrow> is_seal_call c"
  shows "filter P xs = []"
  using assms by (induction xs) auto

lemma takeWhile_no_seal:
  assumes "list_all (\<lambda>c. \<not> is_seal_call c) xs" and "\<And>c. P c \<Longrightarrow> is_seal_call c"
  shows "takeWhile (\<lambda>c. \<not> P c) (xs @ ys) = xs @ takeWhile (\<lambda>c. \<not> P c) ys"
  using assms by (intro takeWhile_append2) (auto simp: list_all_iff)

lemma seal_call_kinds:
  "is_round_call c \<Longrightarrow> is_seal_call c"
  "is_parms_ctor c \<Longrightarrow> is_seal_call c"
  "is_context_ctor c \<Longrightarrow> is_seal_call c"
  "is_keygen_ctor c \<Longrightarrow> is_seal_call c"
  "is_Encrypt c \<Longrightarrow> is_seal_call c"
  "is_Encode c \<Longrightarrow> is_seal_call c"
  "is_parms_write c \<Longrightarrow> is_seal_call c"
  "c = Decrypt New_Ciphertext \<Longrightarrow> is_seal_call c"
  by (cases c; simp)+

text \<open>
  A trace made of the common start, calls outside SEAL, some rounds, and calls outside
  SEAL again: the shape of every run.
\<close>

lemma fixed_sequence_rounds:
  assumes mid: "list_all (\<lambda>c. \<not> is_seal_call c) mid"
    and post: "list_all (\<lambda>c. \<not> is_seal_call c) post"
  shows "fixed_sequence (Suc k)
           (prologue_trace @ mid @ concat (replicate (Suc k) round_calls) @ post)"
proof -
  note f = filter_no_seal [OF mid seal_call_kinds(1)] filter_no_seal [OF post seal_call_kinds(1)]
    filter_no_seal [OF mid seal_call_kinds(2)] filter_no_seal [OF post seal_call_kinds(2)]
    filter_no_seal [OF mid seal_call_kinds(3)] filter_no_seal [OF post seal_call_kinds(3)]
    filter_no_seal [OF mid seal_call_kinds(4)] filter_no_seal [OF post seal_call_kinds(4)]
    filter_no_seal [OF mid seal_call_kinds(8)] filter_no_seal [OF post seal_call_kinds(8)]
  note t = takeWhile_no_seal [OF mid seal_call_kinds(5)]
  show ?thesis
    unfolding fixed_sequence_def first_index_def count_calls_def
    by (simp add: prologue_trace_def round_calls_def f t filter_concat_replicate
        concat_replicate_Nil)
qed

lemma parameter_invariant_rounds:
  assumes mid: "list_all (\<lambda>c. \<not> is_seal_call c) mid"
    and post: "list_all (\<lambda>c. \<not> is_seal_call c) post"
  shows "parameter_invariant n (prologue_trace @ mid @ concat (replicate n round_calls) @ post)"
proof -
  note f = filter_no_seal [OF mid seal_call_kinds(3)] filter_no_seal [OF post seal_call_kinds(3)]
    filter_no_seal [OF mid seal_call_kinds(6)] filter_no_seal [OF post seal_call_kinds(6)]
    filter_no_seal [OF mid seal_call_kinds(7)] filter_no_seal [OF post seal_call_kinds(7)]
  show ?thesis
    unfolding parameter_invariant_def
    by (simp add: prologue_trace_def round_calls_def f filter_concat_replicate
        concat_replicate_Nil concat_replicate_single)
qed

lemma seal_calls_rounds:
  assumes mid: "list_all (\<lambda>c. \<not> is_seal_call c) mid"
    and post: "list_all (\<lambda>c. \<not> is_seal_call c) post"
  shows "filter is_seal_call (prologue_trace @ mid @ concat (replicate n round_calls) @ post)
         = prologue_calls @ concat (replicate n round_calls)"
proof -
  have "filter is_seal_call round_calls = round_calls"
    by (simp add: round_calls_def)
  moreover have "filter is_seal_call mid = []" "filter is_seal_call post = []"
    using mid post by (simp_all add: filter_no_seal)
  ultimately show ?thesis
    by (simp add: prologue_calls_def filter_concat_replicate)
qed

lemma traces:
  "trace Main_plain = prologue_trace @ [] @ concat (replicate 1 round_calls) @
     [Console_WriteLine [ToString (Double e_literal)],
      Console_WriteLine [ToString (Result_0 decoded_e)] ]"
  "trace Main_timed = prologue_trace @ [Stopwatch_ctor, Stopwatch_Start] @
     concat (replicate 1 round_calls) @
     [Stopwatch_Stop,
      Console_WriteLine [ToString (Double e_literal)],
      Console_WriteLine [ToString (Result_0 decoded_e)],
      Console_WriteLine [Text ''Time taken: '', ToString ElapsedMilliseconds, Text ''ms''] ]"
  "trace Main_averaged = prologue_trace @ [Stopwatch_ctor, Stopwatch_Start] @
     concat (replicate 1000 round_calls) @
     [Stopwatch_Stop,
      Console_WriteLine [ToString (Double e_literal)],
      Console_WriteLine [ToString (Result_0 decoded_e)],
      Console_WriteLine [Text ''Average Time taken: '',
        ToString (Over ElapsedMilliseconds (Double 1000)), Text ''ms''] ]"
  "trace Main_plain_labelled = prologue_trace @ [] @ concat (replicate 1 round_calls) @
     [Console_WriteLine [Text ''Original: '', ToString (Double e_literal)],
      Console_WriteLine
        [Text ''Enc/Dec:  '', ToString_format (Result_0 decoded_e) ''#.############''] ]"
  "trace Main_timed_ticks = prologue_trace @ [Stopwatch_ctor, Stopwatch_Start] @
     concat (replicate 1 round_calls) @
     [Stopwatch_Stop,
      Console_WriteLine [Text ''Original:   '', ToString (Double e_literal)],
      Console_WriteLine
        [Text ''Enc/Dec:    '', ToString_format (Result_0 decoded_e) ''#.############''],
      Console_WriteLine [Text ''Time taken: '',
        ToString (Over (Times (Double 1000) ElapsedTicks) Frequency), Text ''ms''] ]"
  "trace Main_averaged_ticks = prologue_trace @ [Stopwatch_ctor, Stopwatch_Start] @
     concat (replicate 1000 round_calls) @
     [Stopwatch_Stop,
      Console_WriteLine [Text ''Original:   '', ToString (Double e_literal)],
      Console_WriteLine
        [Text ''Enc/Dec:    '', ToString_format (Result_0 decoded_e) ''#.############''],
      Console_WriteLine [Text ''Time taken: '',
        ToString_format (Over (Times (Double 1) ElapsedTicks) Frequency) ''##.###'',
        Text ''ms on average per enc/dec''] ]"
  "trace Handle_Clicked = prologue_trace @ [Stopwatch_ctor, Stopwatch_Start] @
     concat (replicate 1000 round_calls) @
     [Stopwatch_Stop,
      LabelText_set [Text ''Original: '', ToString (Double e_literal),
        Text ''\<newline>Enc/Dec: '', ToString_format (Result_0 decoded_e) ''#.############'',
        Text ''\<newline>Time taken: '',
        ToString_format (Over (Times (Double 1) ElapsedTicks) Frequency) ''##.###'',
        Text ''ms on average per enc/dec''] ]"
  by (simp_all add: trace_def final_state_def all_runs concat_replicate_one
      del: replicate.simps)

lemma runs_completed:
  "completed Main_plain" "completed Main_timed" "completed Main_averaged"
  "completed Main_plain_labelled" "completed Main_timed_ticks" "completed Main_averaged_ticks"
  "completed Handle_Clicked"
  by (simp_all add: completed_def all_runs)

lemma seal_calls_of_runs:
  "seal_calls Main_plain = prologue_calls @ round_calls"
  "seal_calls Main_timed = prologue_calls @ round_calls"
  "seal_calls Main_averaged = prologue_calls @ concat (replicate 1000 round_calls)"
  "seal_calls Main_plain_labelled = prologue_calls @ round_calls"
  "seal_calls Main_timed_ticks = prologue_calls @ round_calls"
  "seal_calls Main_averaged_ticks = prologue_calls @ concat (replicate 1000 round_calls)"
  "seal_calls Handle_Clicked = prologue_calls @ concat (replicate 1000 round_calls)"
  unfolding seal_calls_def traces
  by (subst seal_calls_rounds; simp)+

lemma Handle_Clicked_before_label_run:
  "Handle_Clicked_before_label =
     Inr (final_state (prologue_trace @ [Stopwatch_ctor, Stopwatch_Start] @
       concat (replicate 1000 round_calls) @ [Stopwatch_Stop]))"
  by (simp add: Handle_Clicked_before_label_def run_defs)

lemma seal_calls_before_label:
  "seal_calls Handle_Clicked_before_label
     = prologue_calls @ concat (replicate 1000 round_calls)"
proof -
  have "trace Handle_Clicked_before_label =
      prologue_trace @ [Stopwatch_ctor, Stopwatch_Start] @
        concat (replicate 1000 round_calls) @ [Stopwatch_Stop]"
    by (simp add: trace_def final_state_def Handle_Clicked_before_label_run
        del: replicate.simps)
  moreover have "filter is_seal_call (prologue_trace @ [Stopwatch_ctor, Stopwatch_Start] @
        concat (replicate 1000 round_calls) @ [Stopwatch_Stop])
      = prologue_calls @ concat (replicate 1000 round_calls)"
    by (rule seal_calls_rounds) simp_all
  ultimately show ?thesis
    by (simp only: seal_calls_def)
qed

subsection \<open>The order of the calls\<close>

text \<open>
  Claim C3. Every C\# program of the notebook, and the button handler, runs to its end
  and makes its library calls in one fixed sequence: the \<open>EncryptionParameters\<close> object
  is constructed first, then the \<open>SEALContext\<close>, then the \<open>KeyGenerator\<close>, once and before
  any encryption; every round calls Encode, Encrypt, Decrypt, Decode in that order, one
  round in the plain and the timed programs and 1000 rounds in the averaged ones; and no
  Decrypt is called on a ciphertext that Encrypt has not produced.
\<close>

theorem calls_in_fixed_sequence:
  "completed Main_plain \<and> fixed_sequence 1 (trace Main_plain) \<and>
   completed Main_timed \<and> fixed_sequence 1 (trace Main_timed) \<and>
   completed Main_averaged \<and> fixed_sequence 1000 (trace Main_averaged) \<and>
   completed Main_plain_labelled \<and> fixed_sequence 1 (trace Main_plain_labelled) \<and>
   completed Main_timed_ticks \<and> fixed_sequence 1 (trace Main_timed_ticks) \<and>
   completed Main_averaged_ticks \<and> fixed_sequence 1000 (trace Main_averaged_ticks) \<and>
   completed Handle_Clicked \<and> fixed_sequence 1000 (trace Handle_Clicked)"
proof -
  have one: "fixed_sequence 1 (prologue_trace @ mid @ concat (replicate 1 round_calls) @ post)"
    if "list_all (\<lambda>c. \<not> is_seal_call c) mid" "list_all (\<lambda>c. \<not> is_seal_call c) post"
    for mid post
    using fixed_sequence_rounds [OF that, of 0] by simp
  have many:
    "fixed_sequence 1000 (prologue_trace @ mid @ concat (replicate 1000 round_calls) @ post)"
    if "list_all (\<lambda>c. \<not> is_seal_call c) mid" "list_all (\<lambda>c. \<not> is_seal_call c) post"
    for mid post
    using fixed_sequence_rounds [OF that, of 999] by simp
  show ?thesis
    unfolding traces
    by (intro conjI runs_completed one many) simp_all
qed

subsection \<open>The encryption parameters\<close>

text \<open>
  Claim C5. Every SEAL context the C\# programs construct is built from the same
  parameters: scheme CKKS, polynomial modulus degree 8192, and the coefficient modulus
  created for that degree from the bit sizes 60, 40, 40, 60; every encoding uses the scale
  \<open>2^40\<close>; and from the construction of the context on, no program writes to the
  parameters.
\<close>

theorem contexts_built_from_same_parameters:
  "scale = 2 ^ 40 \<and>
   the_parms = \<lparr>Scheme = CKKS, PolyModulusDegree = Some 8192,
      CoeffModulus = Some (CoeffModulus_Create 8192 [60, 40, 40, 60])\<rparr> \<and>
   parameter_invariant 1 (trace Main_plain) \<and>
   parameter_invariant 1 (trace Main_timed) \<and>
   parameter_invariant 1000 (trace Main_averaged) \<and>
   parameter_invariant 1 (trace Main_plain_labelled) \<and>
   parameter_invariant 1 (trace Main_timed_ticks) \<and>
   parameter_invariant 1000 (trace Main_averaged_ticks) \<and>
   parameter_invariant 1000 (trace Handle_Clicked)"
  unfolding traces
  by (intro conjI parameter_invariant_rounds scale_eq the_parms_def) simp_all

subsection \<open>The timed programs against the plain one\<close>

text \<open>
  Claim C6, as stated, fails for the loop: the averaged program does not make the sequence
  of SEAL calls the plain program makes, it makes the four calls of the round 1000 times.
\<close>

theorem loop_changes_seal_calls: "seal_calls Main_averaged \<noteq> seal_calls Main_plain"
proof
  assume "seal_calls Main_averaged = seal_calls Main_plain"
  then have "length (seal_calls Main_averaged) = length (seal_calls Main_plain)"
    by simp
  then show False
    by (simp add: seal_calls_of_runs length_concat_replicate round_calls_def)
qed

text \<open>
  Claim C6, amended. The plain \<open>test.Main\<close>, the stopwatch-timed \<open>test.Main\<close>, the averaged
  \<open>test.Main\<close> and \<open>Handle_Clicked\<close> all make the same calls into SEAL to set up, with the
  same encryption parameters, and the same Encode, Encrypt, Decrypt, Decode round on
  2.718281828459 at scale \<open>2^40\<close>. Adding the stopwatch changes nothing in the sequence of
  SEAL calls or in their arguments; adding the loop makes the four calls of the round 1000
  times in place of once, with the same arguments every time; and the handler, up to its
  assignment to \<open>LabelText\<close>, makes the SEAL calls of the averaged program. An argument
  that is an object is the same when it is the same variable, last written by the same
  call from the same arguments; what the object then holds is not compared.
\<close>

theorem timed_variants_repeat_the_round:
  "seal_calls Main_plain = prologue_calls @ round_calls \<and>
   seal_calls Main_timed = seal_calls Main_plain \<and>
   seal_calls Main_averaged = prologue_calls @ concat (replicate 1000 round_calls) \<and>
   seal_calls Handle_Clicked_before_label = seal_calls Main_averaged"
  by (simp add: seal_calls_of_runs seal_calls_before_label)

end
